theory Spec2Isabelle
  imports Main "HOL-Library.AList" "HOL-Library.Word"
begin

unbundle bit_operations_syntax

section \<open>JavaScript values\<close>

text \<open>
  The service keeps in \<open>settings\<close> whatever \<open>JSON.parse\<close> returned for the persisted
  string (\<open>getLocalStorageItem\<close> is typed \<open>any\<close>), and \<open>isSystemDark\<close> can return
  \<open>undefined\<close> through the optional chaining on \<open>document.defaultView\<close>. The values the
  program handles are therefore modelled as JavaScript values, not as the TypeScript
  annotations.

  A number is the bit pattern of its IEEE 754 double. An array carries its elements and
  its named properties. An object is its list of own properties in insertion order.
\<close>

datatype jsvalue =
    JUndefined
  | JNull
  | JBool bool
  | JNumber "64 word"
  | JString string
  | JArray "jsvalue list" "(string \<times> jsvalue) list"
  | JObject "(string \<times> jsvalue) list"

datatype error = SyntaxError | TypeError

definition isZeroOrNaN :: "64 word \<Rightarrow> bool" where
  "isZeroOrNaN w =
     (w AND 0x7FFFFFFFFFFFFFFF = 0 \<or>
      (w AND 0x7FF0000000000000 = 0x7FF0000000000000 \<and> w AND 0x000FFFFFFFFFFFFF \<noteq> 0))"

text \<open>The conversion \<open>ToBoolean\<close> that \<open>if (x)\<close>, \<open>!x\<close> and \<open>x ? a : b\<close> apply.\<close>

fun truthy :: "jsvalue \<Rightarrow> bool" where
  "truthy JUndefined = False"
| "truthy JNull = False"
| "truthy (JBool b) = b"
| "truthy (JNumber w) = (\<not> isZeroOrNaN w)"
| "truthy (JString s) = (s \<noteq> [])"
| "truthy (JArray xs ps) = True"
| "truthy (JObject ps) = True"

text \<open>
  The expression \<open>v.darkMode\<close>. Reading a property of \<open>undefined\<close> or \<open>null\<close> throws a
  TypeError; a primitive has no such property; an object or array gives its own property
  or \<open>undefined\<close>.
\<close>

fun read_darkMode :: "jsvalue \<Rightarrow> error + jsvalue" where
  "read_darkMode JUndefined = Inl TypeError"
| "read_darkMode JNull = Inl TypeError"
| "read_darkMode (JArray xs ps) =
     Inr (case map_of ps ''darkMode'' of None \<Rightarrow> JUndefined | Some v \<Rightarrow> v)"
| "read_darkMode (JObject ps) =
     Inr (case map_of ps ''darkMode'' of None \<Rightarrow> JUndefined | Some v \<Rightarrow> v)"
| "read_darkMode v = Inr JUndefined"

text \<open>
  The assignment \<open>v.darkMode = x\<close> in strict code (a class body): on \<open>undefined\<close>,
  \<open>null\<close> and on a primitive it throws a TypeError; on an object or array it
  updates the property in place or adds it after the existing ones.
\<close>

fun assign_darkMode :: "jsvalue \<Rightarrow> jsvalue \<Rightarrow> error + jsvalue" where
  "assign_darkMode (JArray xs ps) x = Inr (JArray xs (AList.update ''darkMode'' x ps))"
| "assign_darkMode (JObject ps) x = Inr (JObject (AList.update ''darkMode'' x ps))"
| "assign_darkMode v x = Inl TypeError"

section \<open>The page and the service\<close>

text \<open>
  What the constructor finds: the local storage of the origin, the window of the injected
  document (\<open>document.defaultView\<close>, absent for a document without a browsing context)
  reduced to what \<open>matchMedia('(prefers-color-scheme: dark)').matches\<close> reads, and the
  class list of \<open>document.body\<close>. The document is taken to be an HTML document, with its
  \<open>head\<close> and \<open>body\<close>, and local storage to be readable and writable.
\<close>

record page =
  localStorage :: "string \<rightharpoonup> string"
  defaultView :: "bool option"
  bodyClassList :: "string set"

record HTMLLinkElement =
  rel :: "string option"
  href :: "string option"
  inHead :: bool

text \<open>The calls made on the \<open>Renderer2\<close>, in order.\<close>

datatype renderer_call =
    CreateElement string
  | SetAttribute string string
  | AppendChild
  | RemoveClass string
  | AddClass string
  | SetProperty string string

text \<open>
  The fields of \<open>ThemeService\<close>, on top of the page it lives in. A \<open>Subject\<close> is
  identified by the number of subjects created before it. \<open>changeListeners\<close> holds the
  \<open>change\<close> listeners that this service has registered on the media query and that are
  still registered, each named by the subject whose emission removes it (\<open>takeUntil\<close>).
\<close>

record ThemeService = page +
  settings :: jsvalue
  destructionSubject :: "nat option"
  kendouiStylesheetHtmlElement :: "HTMLLinkElement option"
  changeListeners :: "nat list"
  subjectsCreated :: nat
  rendererCalls :: "renderer_call list"

abbreviation LIGHT_MODE_CSS_CLASS_NAME :: string where
  "LIGHT_MODE_CSS_CLASS_NAME \<equiv> ''theme-alternate''"

abbreviation SETTINGS_KEY :: string where
  "SETTINGS_KEY \<equiv> ''theme''"

section \<open>The methods of the service\<close>

text \<open>
  \<open>JSON.parse\<close> and \<open>JSON.stringify\<close> belong to the platform. They are parameters of the
  model: \<open>parse s = None\<close> stands for the SyntaxError that \<open>JSON.parse\<close> throws.
\<close>

type_synonym json_parse = "string \<Rightarrow> jsvalue option"
type_synonym json_stringify = "jsvalue \<Rightarrow> string"

definition get_kendouiStylesheetHtmlElement :: "ThemeService \<Rightarrow> HTMLLinkElement \<times> ThemeService" where
  "get_kendouiStylesheetHtmlElement s =
     (case kendouiStylesheetHtmlElement s of
        None \<Rightarrow>
          (let el = \<lparr>rel = Some ''stylesheet'', href = None, inHead = True\<rparr>
           in (el, s\<lparr>kendouiStylesheetHtmlElement := Some el,
                     rendererCalls := rendererCalls s @
                       [CreateElement ''link'', SetAttribute ''rel'' ''stylesheet'', AppendChild]\<rparr>))
      | Some el \<Rightarrow> (el, s))"

definition setLocalStorageItem :: "json_stringify \<Rightarrow> string \<Rightarrow> jsvalue \<Rightarrow> ThemeService \<Rightarrow> ThemeService" where
  "setLocalStorageItem stringify key v s = s\<lparr>localStorage := (localStorage s)(key \<mapsto> stringify v)\<rparr>"

definition getLocalStorageItem :: "json_parse \<Rightarrow> (string \<rightharpoonup> string) \<Rightarrow> string \<Rightarrow> error + jsvalue" where
  "getLocalStorageItem parse ls key =
     (case ls key of
        None \<Rightarrow> Inr JUndefined
      | Some serializedValue \<Rightarrow>
          if serializedValue \<noteq> []
          then (case parse serializedValue of None \<Rightarrow> Inl SyntaxError | Some v \<Rightarrow> Inr v)
          else Inr JUndefined)"

definition removeLocalStorageItem :: "string \<Rightarrow> ThemeService \<Rightarrow> ThemeService" where
  "removeLocalStorageItem key s = s\<lparr>localStorage := (localStorage s)(key := None)\<rparr>"

definition isSystemDark :: "ThemeService \<Rightarrow> jsvalue" where
  "isSystemDark s = (case defaultView s of None \<Rightarrow> JUndefined | Some m \<Rightarrow> JBool m)"

definition setKendoUiControlsMode :: "string \<Rightarrow> ThemeService \<Rightarrow> ThemeService" where
  "setKendoUiControlsMode stylesheetFilePath s =
     (let (el, s1) = get_kendouiStylesheetHtmlElement s
      in s1\<lparr>kendouiStylesheetHtmlElement := Some (el\<lparr>href := Some stylesheetFilePath\<rparr>),
            rendererCalls := rendererCalls s1 @ [SetProperty ''href'' stylesheetFilePath]\<rparr>)"

definition setMode :: "jsvalue \<Rightarrow> ThemeService \<Rightarrow> ThemeService" where
  "setMode darkMode s =
     (if truthy darkMode
      then setKendoUiControlsMode ''kendoui-dark.css''
             (s\<lparr>bodyClassList := bodyClassList s - {LIGHT_MODE_CSS_CLASS_NAME},
                rendererCalls := rendererCalls s @ [RemoveClass LIGHT_MODE_CSS_CLASS_NAME]\<rparr>)
      else setKendoUiControlsMode ''kendoui-light.css''
             (s\<lparr>bodyClassList := insert LIGHT_MODE_CSS_CLASS_NAME (bodyClassList s),
                rendererCalls := rendererCalls s @ [AddClass LIGHT_MODE_CSS_CLASS_NAME]\<rparr>))"

definition startSystemModeSynchronization :: "ThemeService \<Rightarrow> ThemeService" where
  "startSystemModeSynchronization s =
     (if destructionSubject s = None \<and> defaultView s \<noteq> None
      then s\<lparr>destructionSubject := Some (subjectsCreated s),
             subjectsCreated := Suc (subjectsCreated s),
             changeListeners := changeListeners s @ [subjectsCreated s]\<rparr>
      else s)"

text \<open>
  The function subscribed in \<open>startSystemModeSynchronization\<close>. \<open>e\<close> is the \<open>matches\<close>
  field of the event, or \<open>None\<close> for a falsy event.
\<close>

definition changeHandler :: "bool option \<Rightarrow> ThemeService \<Rightarrow> ThemeService" where
  "changeHandler e s =
     setMode (case e of Some matches \<Rightarrow> JBool matches | None \<Rightarrow> isSystemDark s) s"

definition stopSystemModeSynchronization :: "ThemeService \<Rightarrow> ThemeService" where
  "stopSystemModeSynchronization s =
     (case destructionSubject s of
        Some subj \<Rightarrow> s\<lparr>changeListeners := filter (\<lambda>l. l \<noteq> subj) (changeListeners s),
                      destructionSubject := None\<rparr>
      | None \<Rightarrow> s)"

definition constructor :: "json_parse \<Rightarrow> page \<Rightarrow> error + ThemeService" where
  "constructor parse p =
     (case getLocalStorageItem parse (localStorage p) SETTINGS_KEY of
        Inl e \<Rightarrow> Inl e
      | Inr v \<Rightarrow>
          (let s = \<lparr>localStorage = localStorage p, defaultView = defaultView p,
                    bodyClassList = bodyClassList p, settings = v,
                    destructionSubject = None, kendouiStylesheetHtmlElement = None,
                    changeListeners = [], subjectsCreated = 0, rendererCalls = []\<rparr>
           in if \<not> truthy (settings s)
              then (let s1 = s\<lparr>settings := JObject [(''darkMode'', JBool False)]\<rparr> in
                    case assign_darkMode (settings s1) (isSystemDark s1) of
                      Inl e \<Rightarrow> Inl e
                    | Inr v' \<Rightarrow> Inr (startSystemModeSynchronization (s1\<lparr>settings := v'\<rparr>)))
              else Inr s))"

text \<open>A method either returns or throws; the service is left as it was at that moment.\<close>

datatype outcome = Returned ThemeService | Threw error ThemeService

fun state_of :: "outcome \<Rightarrow> ThemeService" where
  "state_of (Returned s) = s"
| "state_of (Threw e s) = s"

definition apply_theme :: "ThemeService \<Rightarrow> outcome" where
  "apply_theme s =
     (case read_darkMode (settings s) of
        Inl e \<Rightarrow> Threw e s
      | Inr darkMode \<Rightarrow> Returned (setMode darkMode s))"

definition ngOnDestroy :: "ThemeService \<Rightarrow> ThemeService" where
  "ngOnDestroy s = stopSystemModeSynchronization s"

definition setSystemMode :: "ThemeService \<Rightarrow> ThemeService" where
  "setSystemMode s =
     (let darkMode = isSystemDark s;
          s1 = setMode darkMode s;
          s2 = startSystemModeSynchronization s1
      in removeLocalStorageItem SETTINGS_KEY s2)"

definition setUserDefinedMode :: "json_stringify \<Rightarrow> bool \<Rightarrow> ThemeService \<Rightarrow> outcome" where
  "setUserDefinedMode stringify darkMode s =
     (let s1 = setMode (JBool darkMode) s;
          s2 = stopSystemModeSynchronization s1
      in case assign_darkMode (settings s2) (JBool darkMode) of
           Inl e \<Rightarrow> Threw e s2
         | Inr v \<Rightarrow>
             (let s3 = s2\<lparr>settings := v\<rparr>
              in Returned (setLocalStorageItem stringify SETTINGS_KEY (settings s3) s3)))"

definition setLightMode :: "json_stringify \<Rightarrow> ThemeService \<Rightarrow> outcome" where
  "setLightMode stringify s = setUserDefinedMode stringify False s"

definition setDarkMode :: "json_stringify \<Rightarrow> ThemeService \<Rightarrow> outcome" where
  "setDarkMode stringify s = setUserDefinedMode stringify True s"

section \<open>The theme on the page\<close>

text \<open>
  The theme that the page shows: dark when the stylesheet link in the head points to the
  dark stylesheet and the body lacks the light marker class, light when it points to the
  light stylesheet and the body has the class.
\<close>

definition stylesheet :: "ThemeService \<Rightarrow> string option" where
  "stylesheet s =
     (case kendouiStylesheetHtmlElement s of
        None \<Rightarrow> None
      | Some el \<Rightarrow> if inHead el \<and> rel el = Some ''stylesheet'' then href el else None)"

definition appliedTheme :: "ThemeService \<Rightarrow> bool option" where
  "appliedTheme s =
     (if stylesheet s = Some ''kendoui-dark.css'' \<and> LIGHT_MODE_CSS_CLASS_NAME \<notin> bodyClassList s
      then Some True
      else if stylesheet s = Some ''kendoui-light.css'' \<and> LIGHT_MODE_CSS_CLASS_NAME \<in> bodyClassList s
      then Some False
      else None)"

section \<open>Events and runs\<close>

text \<open>
  What can happen to a constructed service: a call of one of its public methods, the
  \<open>ngOnDestroy\<close> hook, or a change of the colour scheme preferred by the operating system.
\<close>

datatype event =
    Apply
  | SetUserDefinedMode bool
  | SetDarkMode
  | SetLightMode
  | SetSystemMode
  | NgOnDestroy
  | OsChange bool

text \<open>
  The media query changes to \<open>matches\<close>. Without a window there is no media query. The
  browser fires \<open>change\<close> only when the result of the query changes, and then calls every
  registered listener with the event.
\<close>

definition osPreferenceChange :: "bool \<Rightarrow> ThemeService \<Rightarrow> ThemeService" where
  "osPreferenceChange matches s =
     (case defaultView s of
        None \<Rightarrow> s
      | Some old \<Rightarrow>
          if old = matches then s
          else fold (\<lambda>l. changeHandler (Some matches)) (changeListeners s)
                 (s\<lparr>defaultView := Some matches\<rparr>))"

definition exec :: "json_stringify \<Rightarrow> event \<Rightarrow> ThemeService \<Rightarrow> outcome" where
  "exec stringify ev s =
     (case ev of
        Apply \<Rightarrow> apply_theme s
      | SetUserDefinedMode d \<Rightarrow> setUserDefinedMode stringify d s
      | SetDarkMode \<Rightarrow> setDarkMode stringify s
      | SetLightMode \<Rightarrow> setLightMode stringify s
      | SetSystemMode \<Rightarrow> Returned (setSystemMode s)
      | NgOnDestroy \<Rightarrow> Returned (ngOnDestroy s)
      | OsChange matches \<Rightarrow> Returned (osPreferenceChange matches s))"

text \<open>
  The mode of the application is not a field of the service. It is the state of the state
  machine of the design: after startup, follow mode when the constructor took the branch
  that reads the preference of the operating system, override mode when it kept the loaded
  settings; override mode after \<open>setUserDefinedMode\<close> (\<open>setDarkMode\<close>, \<open>setLightMode\<close>)
  has returned, follow mode after \<open>setSystemMode\<close> has returned; unchanged by everything
  else, and by a call that throws.
\<close>

datatype mode = Override | Following

definition startMode :: "json_parse \<Rightarrow> page \<Rightarrow> mode" where
  "startMode parse p =
     (case getLocalStorageItem parse (localStorage p) SETTINGS_KEY of
        Inl e \<Rightarrow> Following
      | Inr v \<Rightarrow> if \<not> truthy v then Following else Override)"

fun nextMode :: "mode \<Rightarrow> event \<Rightarrow> outcome \<Rightarrow> mode" where
  "nextMode m ev (Threw e s) = m"
| "nextMode m (SetUserDefinedMode d) (Returned s) = Override"
| "nextMode m SetDarkMode (Returned s) = Override"
| "nextMode m SetLightMode (Returned s) = Override"
| "nextMode m SetSystemMode (Returned s) = Following"
| "nextMode m ev (Returned s) = m"

fun runFrom :: "json_stringify \<Rightarrow> mode \<times> ThemeService \<Rightarrow> event list \<Rightarrow> mode \<times> ThemeService" where
  "runFrom stringify ms [] = ms"
| "runFrom stringify ms (ev # evs) =
     runFrom stringify
       (nextMode (fst ms) ev (exec stringify ev (snd ms)), state_of (exec stringify ev (snd ms)))
       evs"

text \<open>
  Startup on a page followed by a list of events: the mode and the service at the end, or
  the error with which the constructor failed.
\<close>

definition run :: "json_parse \<Rightarrow> json_stringify \<Rightarrow> page \<Rightarrow> event list \<Rightarrow> error + mode \<times> ThemeService" where
  "run parse stringify p evs =
     (case constructor parse p of
        Inl e \<Rightarrow> Inl e
      | Inr s \<Rightarrow> Inr (runFrom stringify (startMode parse p, s) evs))"

text \<open>A page load: the document is new, local storage is what the last page left.\<close>

definition freshPage :: "ThemeService \<Rightarrow> bool option \<Rightarrow> string set \<Rightarrow> page" where
  "freshPage s view classes =
     \<lparr>localStorage = localStorage s, defaultView = view, bodyClassList = classes\<rparr>"

section \<open>Sample strings\<close>

text \<open>
  What \<open>JSON.parse\<close> and \<open>JSON.stringify\<close> give on the strings and values of the examples
  below (a truncated record and the empty string are not JSON). The examples use no other
  string and no other value.
\<close>

definition sampleParse :: json_parse where
  \<open>sampleParse str =
     (if str = ''{"darkMode":true}'' then Some (JObject [(''darkMode'', JBool True)])
      else if str = ''{"darkMode":false}'' then Some (JObject [(''darkMode'', JBool False)])
      else if str = ''{}'' then Some (JObject [])
      else if str = ''[]'' then Some (JArray [] [])
      else if str = ''null'' then Some JNull
      else if str = ''true'' then Some (JBool True)
      else if str = ''{"darkMode":tru'' then None
      else if str = [] then None
      else None)\<close>

definition sampleStringify :: json_stringify where
  \<open>sampleStringify v =
     (if v = JObject [(''darkMode'', JBool True)] then ''{"darkMode":true}''
      else if v = JObject [(''darkMode'', JBool False)] then ''{"darkMode":false}''
      else if v = JObject [] then ''{}''
      else if v = JArray [] [(''darkMode'', JBool True)] then ''[]''
      else if v = JArray [] [] then ''[]''
      else ''null'')\<close>

text \<open>Pages at startup, for the examples below.\<close>

definition darkPage :: page where
  "darkPage = \<lparr>localStorage = Map.empty, defaultView = Some True, bodyClassList = {}\<rparr>"

definition headlessPage :: page where
  "headlessPage = \<lparr>localStorage = Map.empty, defaultView = None, bodyClassList = {}\<rparr>"

definition corruptPage :: page where
  \<open>corruptPage =
     \<lparr>localStorage = [SETTINGS_KEY \<mapsto> ''{"darkMode":tru''], defaultView = Some True,
      bodyClassList = {}\<rparr>\<close>

definition emptyValuePage :: page where
  "emptyValuePage =
     \<lparr>localStorage = [SETTINGS_KEY \<mapsto> []], defaultView = Some True, bodyClassList = {}\<rparr>"

definition nullPage :: page where
  "nullPage =
     \<lparr>localStorage = [SETTINGS_KEY \<mapsto> ''null''], defaultView = Some True, bodyClassList = {}\<rparr>"

definition lightRecordPage :: page where
  \<open>lightRecordPage =
     \<lparr>localStorage = [SETTINGS_KEY \<mapsto> ''{"darkMode":false}''], defaultView = Some True,
      bodyClassList = {}\<rparr>\<close>

definition emptyObjectPage :: page where
  "emptyObjectPage =
     \<lparr>localStorage = [SETTINGS_KEY \<mapsto> ''{}''], defaultView = Some True, bodyClassList = {}\<rparr>"

definition arrayPage :: page where
  "arrayPage =
     \<lparr>localStorage = [SETTINGS_KEY \<mapsto> ''[]''], defaultView = Some True, bodyClassList = {}\<rparr>"

text \<open>The service at the end of a run that does not fail at startup.\<close>

definition serviceAfter :: "page \<Rightarrow> event list \<Rightarrow> ThemeService" where
  "serviceAfter p evs = snd (projr (run sampleParse sampleStringify p evs))"

section \<open>Invariants of the service\<close>

text \<open>
  The link element, once created, is a stylesheet link in the head; the listeners still
  registered are the one guarded by the current subject, if there is one, and then there
  is a window; the settings are truthy.
\<close>

definition linkAttached :: "ThemeService \<Rightarrow> bool" where
  "linkAttached s =
     (case kendouiStylesheetHtmlElement s of
        None \<Rightarrow> True
      | Some el \<Rightarrow> inHead el \<and> rel el = Some ''stylesheet'')"

definition wellFormed :: "ThemeService \<Rightarrow> bool" where
  "wellFormed s =
     (linkAttached s \<and>
      changeListeners s = (case destructionSubject s of None \<Rightarrow> [] | Some subj \<Rightarrow> [subj]) \<and>
      (destructionSubject s \<noteq> None \<longrightarrow> defaultView s \<noteq> None) \<and>
      truthy (settings s))"

fun isObject :: "jsvalue \<Rightarrow> bool" where
  "isObject (JArray xs ps) = True"
| "isObject (JObject ps) = True"
| "isObject v = False"

text \<open>
  The persisted value at startup, when there is one, is not empty and deserializes to a
  truthy value. The value that \<open>getLocalStorageItem\<close> loads at startup, when truthy, is an
  object or array.
\<close>

definition loadsTruthy :: "json_parse \<Rightarrow> page \<Rightarrow> bool" where
  "loadsTruthy parse p =
     (case localStorage p SETTINGS_KEY of
        None \<Rightarrow> True
      | Some sv \<Rightarrow> sv \<noteq> [] \<and> (case parse sv of None \<Rightarrow> True | Some v \<Rightarrow> truthy v))"

definition loadsNoPrimitive :: "json_parse \<Rightarrow> page \<Rightarrow> bool" where
  "loadsNoPrimitive parse p =
     (case getLocalStorageItem parse (localStorage p) SETTINGS_KEY of
        Inl e \<Rightarrow> True
      | Inr v \<Rightarrow> truthy v \<longrightarrow> isObject v)"

text \<open>
  \<open>JSON.parse (JSON.stringify v)\<close> is defined and is a truthy value with the
  \<open>darkMode\<close> of \<open>v\<close>; the serialized string is not empty.
\<close>

definition keepsDarkMode :: "json_parse \<Rightarrow> json_stringify \<Rightarrow> jsvalue \<Rightarrow> bool" where
  "keepsDarkMode parse stringify v =
     (stringify v \<noteq> [] \<and>
      (case parse (stringify v) of
         None \<Rightarrow> False
       | Some v' \<Rightarrow> truthy v' \<and> read_darkMode v' = read_darkMode v))"

text \<open>
  The subscription has been torn down: \<open>ngOnDestroy\<close> has been called, and
  \<open>setSystemMode\<close> has not been called since.
\<close>

fun tornDownFrom :: "bool \<Rightarrow> event list \<Rightarrow> bool" where
  "tornDownFrom t [] = t"
| "tornDownFrom t (NgOnDestroy # evs) = tornDownFrom True evs"
| "tornDownFrom t (SetSystemMode # evs) = tornDownFrom False evs"
| "tornDownFrom t (ev # evs) = tornDownFrom t evs"

definition tornDown :: "event list \<Rightarrow> bool" where
  "tornDown evs = tornDownFrom False evs"

text \<open>
  A window is attached, the settings are an object or array, and a subject guards a
  subscription exactly in follow mode that has not been torn down.
\<close>

definition armed :: "mode \<Rightarrow> ThemeService \<Rightarrow> bool \<Rightarrow> bool" where
  "armed m s t =
     (defaultView s \<noteq> None \<and> isObject (settings s) \<and>
      (destructionSubject s \<noteq> None \<longleftrightarrow> m = Following \<and> \<not> t))"

section \<open>Frame lemmas\<close>

text \<open>What each method leaves unchanged, and what it does to the page.\<close>

lemma setKendoUiControlsMode_frame:
  "localStorage (setKendoUiControlsMode f s) = localStorage s"
  "defaultView (setKendoUiControlsMode f s) = defaultView s"
  "bodyClassList (setKendoUiControlsMode f s) = bodyClassList s"
  "settings (setKendoUiControlsMode f s) = settings s"
  "destructionSubject (setKendoUiControlsMode f s) = destructionSubject s"
  "changeListeners (setKendoUiControlsMode f s) = changeListeners s"
  "subjectsCreated (setKendoUiControlsMode f s) = subjectsCreated s"
  by (simp_all add: setKendoUiControlsMode_def get_kendouiStylesheetHtmlElement_def Let_def
        split: option.split)

lemma setKendoUiControlsMode_link:
  "linkAttached s \<Longrightarrow> linkAttached (setKendoUiControlsMode f s)"
  by (simp add: setKendoUiControlsMode_def get_kendouiStylesheetHtmlElement_def Let_def
        linkAttached_def split: option.split_asm option.split)

lemma setKendoUiControlsMode_stylesheet:
  "linkAttached s \<Longrightarrow> stylesheet (setKendoUiControlsMode f s) = Some f"
  by (simp add: setKendoUiControlsMode_def get_kendouiStylesheetHtmlElement_def Let_def
        linkAttached_def stylesheet_def split: option.split_asm option.split)

lemma setMode_frame:
  "localStorage (setMode d s) = localStorage s"
  "defaultView (setMode d s) = defaultView s"
  "settings (setMode d s) = settings s"
  "destructionSubject (setMode d s) = destructionSubject s"
  "changeListeners (setMode d s) = changeListeners s"
  "subjectsCreated (setMode d s) = subjectsCreated s"
  by (simp_all add: setMode_def setKendoUiControlsMode_frame)

lemma linkAttached_update:
  "linkAttached (s\<lparr>bodyClassList := c, rendererCalls := r\<rparr>) = linkAttached s"
  "linkAttached (s\<lparr>localStorage := l\<rparr>) = linkAttached s"
  "linkAttached (s\<lparr>defaultView := w\<rparr>) = linkAttached s"
  "linkAttached (s\<lparr>settings := v\<rparr>) = linkAttached s"
  "linkAttached (s\<lparr>changeListeners := ls, destructionSubject := subj\<rparr>) = linkAttached s"
  "linkAttached (s\<lparr>destructionSubject := subj, subjectsCreated := n, changeListeners := ls\<rparr>) = linkAttached s"
  by (simp_all add: linkAttached_def)

lemma setMode_link: "linkAttached s \<Longrightarrow> linkAttached (setMode d s)"
  by (simp add: setMode_def setKendoUiControlsMode_link linkAttached_update)

lemma setMode_stylesheet:
  "linkAttached s \<Longrightarrow>
   stylesheet (setMode d s) = Some (if truthy d then ''kendoui-dark.css'' else ''kendoui-light.css'')"
  by (simp add: setMode_def setKendoUiControlsMode_stylesheet linkAttached_update)

lemma setMode_marker:
  "LIGHT_MODE_CSS_CLASS_NAME \<in> bodyClassList (setMode d s) \<longleftrightarrow> \<not> truthy d"
  by (simp add: setMode_def setKendoUiControlsMode_frame)

lemma setMode_applied: "linkAttached s \<Longrightarrow> appliedTheme (setMode d s) = Some (truthy d)"
  by (simp add: appliedTheme_def setMode_stylesheet setMode_marker)

lemma setMode_wellFormed: "wellFormed s \<Longrightarrow> wellFormed (setMode d s)"
  by (simp add: wellFormed_def setMode_link setMode_frame)

lemma startSystemModeSynchronization_frame:
  "localStorage (startSystemModeSynchronization s) = localStorage s"
  "defaultView (startSystemModeSynchronization s) = defaultView s"
  "bodyClassList (startSystemModeSynchronization s) = bodyClassList s"
  "settings (startSystemModeSynchronization s) = settings s"
  "kendouiStylesheetHtmlElement (startSystemModeSynchronization s) = kendouiStylesheetHtmlElement s"
  "rendererCalls (startSystemModeSynchronization s) = rendererCalls s"
  by (simp_all add: startSystemModeSynchronization_def)

lemma stopSystemModeSynchronization_frame:
  "localStorage (stopSystemModeSynchronization s) = localStorage s"
  "defaultView (stopSystemModeSynchronization s) = defaultView s"
  "bodyClassList (stopSystemModeSynchronization s) = bodyClassList s"
  "settings (stopSystemModeSynchronization s) = settings s"
  "kendouiStylesheetHtmlElement (stopSystemModeSynchronization s) = kendouiStylesheetHtmlElement s"
  "rendererCalls (stopSystemModeSynchronization s) = rendererCalls s"
  "destructionSubject (stopSystemModeSynchronization s) = None"
  by (simp_all add: stopSystemModeSynchronization_def split: option.split)

lemma startSystemModeSynchronization_wellFormed:
  "wellFormed s \<Longrightarrow> wellFormed (startSystemModeSynchronization s)"
  by (simp add: wellFormed_def startSystemModeSynchronization_def linkAttached_update)

lemma stopSystemModeSynchronization_wellFormed:
  "wellFormed s \<Longrightarrow> wellFormed (stopSystemModeSynchronization s)"
  by (simp add: wellFormed_def stopSystemModeSynchronization_def linkAttached_update
        split: option.split)

lemma stopSystemModeSynchronization_listeners:
  "wellFormed s \<Longrightarrow> changeListeners (stopSystemModeSynchronization s) = []"
  by (simp add: wellFormed_def stopSystemModeSynchronization_def split: option.split)

lemma startSystemModeSynchronization_listeners:
  "changeListeners (startSystemModeSynchronization s) =
     (if destructionSubject s = None \<and> defaultView s \<noteq> None
      then changeListeners s @ [subjectsCreated s] else changeListeners s)"
  by (simp add: startSystemModeSynchronization_def)

lemma changeHandler_frame:
  "localStorage (changeHandler e s) = localStorage s"
  "defaultView (changeHandler e s) = defaultView s"
  "settings (changeHandler e s) = settings s"
  "destructionSubject (changeHandler e s) = destructionSubject s"
  "changeListeners (changeHandler e s) = changeListeners s"
  "subjectsCreated (changeHandler e s) = subjectsCreated s"
  by (simp_all add: changeHandler_def setMode_frame)

lemma changeHandler_link: "linkAttached s \<Longrightarrow> linkAttached (changeHandler e s)"
  by (simp add: changeHandler_def setMode_link)

lemma fold_changeHandler_frame:
  "localStorage (fold (\<lambda>l. changeHandler e) ls s) = localStorage s \<and>
   defaultView (fold (\<lambda>l. changeHandler e) ls s) = defaultView s \<and>
   settings (fold (\<lambda>l. changeHandler e) ls s) = settings s \<and>
   destructionSubject (fold (\<lambda>l. changeHandler e) ls s) = destructionSubject s \<and>
   changeListeners (fold (\<lambda>l. changeHandler e) ls s) = changeListeners s \<and>
   subjectsCreated (fold (\<lambda>l. changeHandler e) ls s) = subjectsCreated s"
  by (induction ls arbitrary: s) (simp_all add: changeHandler_frame)

lemma fold_changeHandler_link:
  "linkAttached s \<Longrightarrow> linkAttached (fold (\<lambda>l. changeHandler e) ls s)"
  by (induction ls arbitrary: s) (simp_all add: changeHandler_link)

lemma osPreferenceChange_frame:
  "localStorage (osPreferenceChange b s) = localStorage s"
  "settings (osPreferenceChange b s) = settings s"
  "destructionSubject (osPreferenceChange b s) = destructionSubject s"
  "changeListeners (osPreferenceChange b s) = changeListeners s"
  "subjectsCreated (osPreferenceChange b s) = subjectsCreated s"
  by (simp_all add: osPreferenceChange_def fold_changeHandler_frame split: option.split)

lemma osPreferenceChange_defaultView:
  "defaultView (osPreferenceChange b s) = (if defaultView s = None then None else Some b)"
  by (auto simp add: osPreferenceChange_def fold_changeHandler_frame split: option.split)

lemma osPreferenceChange_link: "linkAttached s \<Longrightarrow> linkAttached (osPreferenceChange b s)"
  by (simp add: osPreferenceChange_def fold_changeHandler_link linkAttached_update
        split: option.split)

lemma osPreferenceChange_wellFormed: "wellFormed s \<Longrightarrow> wellFormed (osPreferenceChange b s)"
  by (auto simp add: wellFormed_def osPreferenceChange_link osPreferenceChange_frame
        osPreferenceChange_defaultView)

lemma osPreferenceChange_unsubscribed:
  "changeListeners s = [] \<Longrightarrow>
   rendererCalls (osPreferenceChange b s) = rendererCalls s \<and>
   bodyClassList (osPreferenceChange b s) = bodyClassList s \<and>
   kendouiStylesheetHtmlElement (osPreferenceChange b s) = kendouiStylesheetHtmlElement s"
  by (simp add: osPreferenceChange_def split: option.split)

lemma truthy_read_darkMode: "truthy v \<Longrightarrow> \<exists>d. read_darkMode v = Inr d"
  by (cases v) simp_all

lemma isObject_assign_darkMode:
  "isObject v \<Longrightarrow> \<exists>v'. assign_darkMode v x = Inr v' \<and> isObject v' \<and> read_darkMode v' = Inr x"
  by (cases v) (simp_all add: update_conv')

lemma assign_darkMode_Inr:
  "assign_darkMode v x = Inr v' \<Longrightarrow> isObject v \<and> isObject v' \<and> truthy v' \<and> read_darkMode v' = Inr x"
  by (cases v) (auto simp add: update_conv')

lemma isObject_truthy: "isObject v \<Longrightarrow> truthy v"
  by (cases v) simp_all

lemma apply_theme_returns:
  "wellFormed s \<Longrightarrow> \<exists>d. read_darkMode (settings s) = Inr d \<and> apply_theme s = Returned (setMode d s)"
  using truthy_read_darkMode [of "settings s"]
  by (auto simp add: apply_theme_def wellFormed_def)

lemma apply_theme_wellFormed: "wellFormed s \<Longrightarrow> wellFormed (state_of (apply_theme s))"
  using apply_theme_returns [of s] by (auto simp add: setMode_wellFormed)

lemma setSystemMode_wellFormed: "wellFormed s \<Longrightarrow> wellFormed (setSystemMode s)"
proof -
  assume "wellFormed s"
  then have "wellFormed (startSystemModeSynchronization (setMode (isSystemDark s) s))"
    by (simp add: setMode_wellFormed startSystemModeSynchronization_wellFormed)
  then show ?thesis
    by (simp add: setSystemMode_def Let_def removeLocalStorageItem_def wellFormed_def
          linkAttached_update)
qed

lemma setSystemMode_frame:
  "settings (setSystemMode s) = settings s"
  "defaultView (setSystemMode s) = defaultView s"
  "localStorage (setSystemMode s) = (localStorage s)(SETTINGS_KEY := None)"
  by (simp_all add: setSystemMode_def Let_def removeLocalStorageItem_def
        startSystemModeSynchronization_frame setMode_frame)

lemma setSystemMode_listeners:
  "changeListeners (setSystemMode s) =
     (if destructionSubject s = None \<and> defaultView s \<noteq> None
      then changeListeners s @ [subjectsCreated s] else changeListeners s)"
  by (simp add: setSystemMode_def Let_def removeLocalStorageItem_def
        startSystemModeSynchronization_listeners setMode_frame)

lemma setSystemMode_subject:
  "destructionSubject (setSystemMode s) =
     (if destructionSubject s = None \<and> defaultView s \<noteq> None then Some (subjectsCreated s)
      else destructionSubject s)"
  by (simp add: setSystemMode_def Let_def removeLocalStorageItem_def
        startSystemModeSynchronization_def setMode_frame)

lemma setUserDefinedMode_state:
  "state_of (setUserDefinedMode stringify d s) =
     (let s2 = stopSystemModeSynchronization (setMode (JBool d) s) in
      case assign_darkMode (settings s) (JBool d) of
        Inl e \<Rightarrow> s2
      | Inr v \<Rightarrow> s2\<lparr>settings := v, localStorage := (localStorage s)(SETTINGS_KEY \<mapsto> stringify v)\<rparr>)"
  by (simp add: setUserDefinedMode_def Let_def setLocalStorageItem_def
        stopSystemModeSynchronization_frame setMode_frame split: sum.split)

lemma setUserDefinedMode_wellFormed:
  "wellFormed s \<Longrightarrow> wellFormed (state_of (setUserDefinedMode stringify d s))"
proof -
  assume wf: "wellFormed s"
  let ?s2 = "stopSystemModeSynchronization (setMode (JBool d) s)"
  have wf2: "wellFormed ?s2"
    using wf by (simp add: setMode_wellFormed stopSystemModeSynchronization_wellFormed)
  show ?thesis
  proof (cases "assign_darkMode (settings s) (JBool d)")
    case (Inl e)
    then show ?thesis using wf2 by (simp add: setUserDefinedMode_state)
  next
    case (Inr v)
    then have "truthy v" using assign_darkMode_Inr by blast
    then show ?thesis using wf2 Inr
      by (simp add: setUserDefinedMode_state wellFormed_def linkAttached_def)
  qed
qed

lemma setUserDefinedMode_unsubscribed:
  "wellFormed s \<Longrightarrow>
   changeListeners (state_of (setUserDefinedMode stringify d s)) = [] \<and>
   destructionSubject (state_of (setUserDefinedMode stringify d s)) = None"
  using stopSystemModeSynchronization_listeners [of "setMode (JBool d) s"]
  by (simp add: setUserDefinedMode_state Let_def setMode_wellFormed
        stopSystemModeSynchronization_frame split: sum.split)

lemma ngOnDestroy_wellFormed: "wellFormed s \<Longrightarrow> wellFormed (ngOnDestroy s)"
  by (simp add: ngOnDestroy_def stopSystemModeSynchronization_wellFormed)

lemma exec_wellFormed: "wellFormed s \<Longrightarrow> wellFormed (state_of (exec stringify ev s))"
  by (cases ev)
     (simp_all add: exec_def apply_theme_wellFormed setUserDefinedMode_wellFormed
        setDarkMode_def setLightMode_def setSystemMode_wellFormed ngOnDestroy_wellFormed
        osPreferenceChange_wellFormed)

lemma runFrom_wellFormed:
  "wellFormed (snd ms) \<Longrightarrow> wellFormed (snd (runFrom stringify ms evs))"
  by (induction evs arbitrary: ms) (simp_all add: exec_wellFormed)

lemma constructor_wellFormed: "constructor parse p = Inr s \<Longrightarrow> wellFormed s"
  by (auto simp add: constructor_def Let_def wellFormed_def linkAttached_def
        startSystemModeSynchronization_def split: sum.splits if_splits)

lemma run_wellFormed: "run parse stringify p evs = Inr ms \<Longrightarrow> wellFormed (snd ms)"
  using runFrom_wellFormed constructor_wellFormed
  by (fastforce simp add: run_def split: sum.splits)

lemmas model_defs = run_def constructor_def getLocalStorageItem_def startMode_def exec_def
  apply_theme_def setUserDefinedMode_def setDarkMode_def setLightMode_def setSystemMode_def
  ngOnDestroy_def osPreferenceChange_def changeHandler_def setMode_def setKendoUiControlsMode_def
  get_kendouiStylesheetHtmlElement_def startSystemModeSynchronization_def
  stopSystemModeSynchronization_def removeLocalStorageItem_def setLocalStorageItem_def
  isSystemDark_def appliedTheme_def stylesheet_def sampleParse_def sampleStringify_def Let_def
  freshPage_def

lemma apply_theme_frame:
  "localStorage (state_of (apply_theme s)) = localStorage s"
  "defaultView (state_of (apply_theme s)) = defaultView s"
  "settings (state_of (apply_theme s)) = settings s"
  "destructionSubject (state_of (apply_theme s)) = destructionSubject s"
  "changeListeners (state_of (apply_theme s)) = changeListeners s"
  by (simp_all add: apply_theme_def setMode_frame split: sum.split)

lemma setUserDefinedMode_Returned_key:
  "setUserDefinedMode stringify d s = Returned s' \<Longrightarrow> localStorage s' SETTINGS_KEY \<noteq> None"
  by (auto simp add: setUserDefinedMode_def Let_def setLocalStorageItem_def split: sum.splits)

lemma setUserDefinedMode_Threw_storage:
  "setUserDefinedMode stringify d s = Threw e s' \<Longrightarrow> localStorage s' = localStorage s"
  by (auto simp add: setUserDefinedMode_def Let_def stopSystemModeSynchronization_frame
        setMode_frame split: sum.splits)

lemma setUserDefinedMode_defaultView:
  "defaultView (state_of (setUserDefinedMode stringify d s)) = defaultView s"
  by (simp add: setUserDefinedMode_state Let_def stopSystemModeSynchronization_frame
        setMode_frame split: sum.split)

lemma setUserDefinedMode_isObject:
  "isObject (settings s) \<Longrightarrow>
   \<exists>s'. setUserDefinedMode stringify d s = Returned s' \<and> isObject (settings s') \<and>
        read_darkMode (settings s') = Inr (JBool d)"
  using isObject_assign_darkMode [of "settings s" "JBool d"]
  by (auto simp add: setUserDefinedMode_def Let_def setLocalStorageItem_def
        stopSystemModeSynchronization_frame setMode_frame)

lemma exec_key_mode:
  assumes "localStorage s SETTINGS_KEY \<noteq> None \<longleftrightarrow> m = Override"
  shows "localStorage (state_of (exec stringify ev s)) SETTINGS_KEY \<noteq> None \<longleftrightarrow>
         nextMode m ev (exec stringify ev s) = Override"
proof -
  have user: "localStorage (state_of (setUserDefinedMode stringify d s)) SETTINGS_KEY \<noteq> None \<longleftrightarrow>
         nextMode m (SetUserDefinedMode d) (setUserDefinedMode stringify d s) = Override" for d
  proof (cases "setUserDefinedMode stringify d s")
    case (Returned s')
    then show ?thesis using setUserDefinedMode_Returned_key [OF Returned] by simp
  next
    case (Threw e s')
    then show ?thesis using setUserDefinedMode_Threw_storage [OF Threw] assms by simp
  qed
  show ?thesis
  proof (cases ev)
    case Apply
    then show ?thesis using assms
      by (cases "apply_theme s") (simp_all add: exec_def apply_theme_def setMode_frame split: sum.splits, auto simp add: setMode_frame)
  next
    case (SetUserDefinedMode d)
    then show ?thesis using user [of d] by (simp add: exec_def)
  next
    case SetDarkMode
    then show ?thesis using user [of True]
      by (cases "setUserDefinedMode stringify True s") (simp_all add: exec_def setDarkMode_def)
  next
    case SetLightMode
    then show ?thesis using user [of False]
      by (cases "setUserDefinedMode stringify False s") (simp_all add: exec_def setLightMode_def)
  next
    case SetSystemMode
    then show ?thesis by (simp add: exec_def setSystemMode_frame)
  next
    case NgOnDestroy
    then show ?thesis using assms
      by (simp add: exec_def ngOnDestroy_def stopSystemModeSynchronization_frame)
  next
    case (OsChange b)
    then show ?thesis using assms by (simp add: exec_def osPreferenceChange_frame)
  qed
qed

lemma runFrom_key_mode:
  "(localStorage (snd ms) SETTINGS_KEY \<noteq> None \<longleftrightarrow> fst ms = Override) \<Longrightarrow>
   (localStorage (snd (runFrom stringify ms evs)) SETTINGS_KEY \<noteq> None \<longleftrightarrow>
    fst (runFrom stringify ms evs) = Override)"
proof (induction evs arbitrary: ms)
  case Nil
  then show ?case by simp
next
  case (Cons ev evs)
  have "localStorage (state_of (exec stringify ev (snd ms))) SETTINGS_KEY \<noteq> None \<longleftrightarrow>
        nextMode (fst ms) ev (exec stringify ev (snd ms)) = Override"
    using Cons.prems by (rule exec_key_mode)
  then show ?case using Cons.IH [of "(nextMode (fst ms) ev (exec stringify ev (snd ms)),
      state_of (exec stringify ev (snd ms)))"] by simp
qed

lemma constructor_storage: "constructor parse p = Inr s \<Longrightarrow> localStorage s = localStorage p"
  by (auto simp add: constructor_def Let_def startSystemModeSynchronization_def
        split: sum.splits if_splits)

lemma constructor_key_mode:
  assumes "constructor parse p = Inr s" and "loadsTruthy parse p"
  shows "localStorage s SETTINGS_KEY \<noteq> None \<longleftrightarrow> startMode parse p = Override"
  using assms constructor_storage [OF assms(1)]
  by (auto simp add: constructor_def startMode_def loadsTruthy_def getLocalStorageItem_def
        split: option.splits sum.splits if_splits)

lemma mode_cases: "m \<noteq> Override \<longleftrightarrow> m = Following"
  by (cases m) simp_all

lemma exec_listeners_mode:
  assumes "wellFormed s" and "changeListeners s \<noteq> [] \<longrightarrow> m = Following"
  shows "changeListeners (state_of (exec stringify ev s)) \<noteq> [] \<longrightarrow>
         nextMode m ev (exec stringify ev s) = Following"
proof (cases ev)
  case Apply
  then show ?thesis using assms(2)
    by (cases "apply_theme s") (auto simp add: exec_def apply_theme_def setMode_frame split: sum.splits)
next
  case (SetUserDefinedMode d)
  then show ?thesis using setUserDefinedMode_unsubscribed [OF assms(1)] by (simp add: exec_def)
next
  case SetDarkMode
  then show ?thesis using setUserDefinedMode_unsubscribed [OF assms(1)]
    by (simp add: exec_def setDarkMode_def)
next
  case SetLightMode
  then show ?thesis using setUserDefinedMode_unsubscribed [OF assms(1)]
    by (simp add: exec_def setLightMode_def)
next
  case SetSystemMode
  then show ?thesis by (simp add: exec_def)
next
  case NgOnDestroy
  then show ?thesis using stopSystemModeSynchronization_listeners [OF assms(1)]
    by (simp add: exec_def ngOnDestroy_def)
next
  case (OsChange b)
  then show ?thesis using assms(2) by (simp add: exec_def osPreferenceChange_frame)
qed

lemma runFrom_listeners_mode:
  "wellFormed (snd ms) \<Longrightarrow> (changeListeners (snd ms) \<noteq> [] \<longrightarrow> fst ms = Following) \<Longrightarrow>
   changeListeners (snd (runFrom stringify ms evs)) \<noteq> [] \<longrightarrow>
   fst (runFrom stringify ms evs) = Following"
proof (induction evs arbitrary: ms)
  case Nil
  then show ?case by simp
next
  case (Cons ev evs)
  let ?ms' = "(nextMode (fst ms) ev (exec stringify ev (snd ms)), state_of (exec stringify ev (snd ms)))"
  have "wellFormed (snd ?ms')" using Cons.prems(1) by (simp add: exec_wellFormed)
  moreover have "changeListeners (snd ?ms') \<noteq> [] \<longrightarrow> fst ?ms' = Following"
    using exec_listeners_mode [OF Cons.prems] by simp
  ultimately show ?case using Cons.IH [of ?ms'] by simp
qed

lemma constructor_listeners_mode:
  "constructor parse p = Inr s \<Longrightarrow> changeListeners s \<noteq> [] \<longrightarrow> startMode parse p = Following"
  by (auto simp add: constructor_def startMode_def Let_def startSystemModeSynchronization_def
        split: sum.splits if_splits)

lemma tornDownFrom_step:
  "tornDownFrom t (ev # evs) =
     tornDownFrom (if ev = NgOnDestroy then True else if ev = SetSystemMode then False else t) evs"
  by (cases ev) simp_all

lemma exec_armed:
  assumes "armed m s t"
  shows "armed (nextMode m ev (exec stringify ev s)) (state_of (exec stringify ev s))
           (if ev = NgOnDestroy then True else if ev = SetSystemMode then False else t)"
proof -
  have obj: "isObject (settings s)" and view: "defaultView s \<noteq> None"
    and sub: "destructionSubject s \<noteq> None \<longleftrightarrow> m = Following \<and> \<not> t"
    using assms by (simp_all add: armed_def)
  have user: "armed (nextMode m (SetUserDefinedMode d) (setUserDefinedMode stringify d s))
          (state_of (setUserDefinedMode stringify d s)) t" for d
  proof -
    obtain s' where ret: "setUserDefinedMode stringify d s = Returned s'"
      and obj': "isObject (settings s')"
      using setUserDefinedMode_isObject [OF obj, of stringify d] by blast
    have "destructionSubject s' = None"
      using ret
      by (auto simp add: setUserDefinedMode_def Let_def setLocalStorageItem_def
            stopSystemModeSynchronization_frame split: sum.splits)
    moreover have "defaultView s' \<noteq> None"
      using setUserDefinedMode_defaultView [of stringify d s] ret view by simp
    ultimately show ?thesis using ret obj' by (simp add: armed_def)
  qed
  show ?thesis
  proof (cases ev)
    case Apply
    obtain d where "apply_theme s = Returned (setMode d s)"
      using obj truthy_read_darkMode [OF isObject_truthy [OF obj]]
      by (auto simp add: apply_theme_def)
    then show ?thesis using Apply obj view sub by (simp add: exec_def armed_def setMode_frame)
  next
    case (SetUserDefinedMode d)
    then show ?thesis using user [of d] by (simp add: exec_def)
  next
    case SetDarkMode
    then show ?thesis using user [of True]
      by (cases "setUserDefinedMode stringify True s") (simp_all add: exec_def setDarkMode_def)
  next
    case SetLightMode
    then show ?thesis using user [of False]
      by (cases "setUserDefinedMode stringify False s") (simp_all add: exec_def setLightMode_def)
  next
    case SetSystemMode
    then show ?thesis using obj view
      by (simp add: exec_def armed_def setSystemMode_frame setSystemMode_subject)
  next
    case NgOnDestroy
    then show ?thesis using obj view
      by (simp add: exec_def armed_def ngOnDestroy_def stopSystemModeSynchronization_frame)
  next
    case (OsChange b)
    then show ?thesis using obj view sub
      by (simp add: exec_def armed_def osPreferenceChange_frame osPreferenceChange_defaultView)
  qed
qed

lemma runFrom_armed:
  "armed (fst ms) (snd ms) t \<Longrightarrow>
   armed (fst (runFrom stringify ms evs)) (snd (runFrom stringify ms evs)) (tornDownFrom t evs)"
proof (induction evs arbitrary: ms t)
  case Nil
  then show ?case by simp
next
  case (Cons ev evs)
  let ?ms' = "(nextMode (fst ms) ev (exec stringify ev (snd ms)), state_of (exec stringify ev (snd ms)))"
  let ?t' = "if ev = NgOnDestroy then True else if ev = SetSystemMode then False else t"
  have "armed (fst ?ms') (snd ?ms') ?t'"
    using exec_armed [OF Cons.prems, of ev stringify] by simp
  then have "armed (fst (runFrom stringify ?ms' evs)) (snd (runFrom stringify ?ms' evs))
      (tornDownFrom ?t' evs)"
    by (rule Cons.IH)
  then show ?case by (simp only: runFrom.simps tornDownFrom_step)
qed

lemma constructor_armed:
  assumes "constructor parse p = Inr s" and "defaultView p \<noteq> None" and "loadsNoPrimitive parse p"
  shows "armed (startMode parse p) s False"
  using assms
  by (auto simp add: constructor_def startMode_def Let_def startSystemModeSynchronization_def
        armed_def loadsNoPrimitive_def getLocalStorageItem_def
        split: sum.splits if_splits option.splits)

lemma exec_torn:
  assumes "t \<longrightarrow> destructionSubject s = None"
  shows "(if ev = NgOnDestroy then True else if ev = SetSystemMode then False else t) \<longrightarrow>
         destructionSubject (state_of (exec stringify ev s)) = None"
proof (cases ev)
  case Apply
  then show ?thesis using assms by (simp add: exec_def apply_theme_frame)
next
  case (SetUserDefinedMode d)
  then show ?thesis
    by (simp add: exec_def setUserDefinedMode_state Let_def stopSystemModeSynchronization_frame
          split: sum.split)
next
  case SetDarkMode
  then show ?thesis
    by (simp add: exec_def setDarkMode_def setUserDefinedMode_state Let_def
          stopSystemModeSynchronization_frame split: sum.split)
next
  case SetLightMode
  then show ?thesis
    by (simp add: exec_def setLightMode_def setUserDefinedMode_state Let_def
          stopSystemModeSynchronization_frame split: sum.split)
next
  case SetSystemMode
  then show ?thesis by simp
next
  case NgOnDestroy
  then show ?thesis by (simp add: exec_def ngOnDestroy_def stopSystemModeSynchronization_frame)
next
  case (OsChange b)
  then show ?thesis using assms by (simp add: exec_def osPreferenceChange_frame)
qed

lemma runFrom_torn:
  "(t \<longrightarrow> destructionSubject (snd ms) = None) \<Longrightarrow>
   tornDownFrom t evs \<longrightarrow> destructionSubject (snd (runFrom stringify ms evs)) = None"
proof (induction evs arbitrary: ms t)
  case Nil
  then show ?case by simp
next
  case (Cons ev evs)
  let ?ms' = "(nextMode (fst ms) ev (exec stringify ev (snd ms)), state_of (exec stringify ev (snd ms)))"
  let ?t' = "if ev = NgOnDestroy then True else if ev = SetSystemMode then False else t"
  have "?t' \<longrightarrow> destructionSubject (snd ?ms') = None"
    using exec_torn [OF Cons.prems, of ev stringify] by simp
  then have "tornDownFrom ?t' evs \<longrightarrow> destructionSubject (snd (runFrom stringify ?ms' evs)) = None"
    by (rule Cons.IH)
  then show ?case by (simp only: runFrom.simps tornDownFrom_step)
qed

lemma exec_no_window:
  "defaultView s = None \<Longrightarrow> defaultView (state_of (exec stringify ev s)) = None"
  by (cases ev)
     (simp_all add: exec_def apply_theme_frame setUserDefinedMode_defaultView setDarkMode_def
        setLightMode_def setSystemMode_frame ngOnDestroy_def stopSystemModeSynchronization_frame
        osPreferenceChange_defaultView)

lemma runFrom_no_window:
  "defaultView (snd ms) = None \<Longrightarrow> defaultView (snd (runFrom stringify ms evs)) = None"
  by (induction evs arbitrary: ms) (simp_all add: exec_no_window)

lemma constructor_defaultView: "constructor parse p = Inr s \<Longrightarrow> defaultView s = defaultView p"
  by (auto simp add: constructor_def Let_def startSystemModeSynchronization_def
        split: sum.splits if_splits)

lemma wellFormed_listeners:
  "wellFormed s \<Longrightarrow>
   (destructionSubject s = None \<longleftrightarrow> changeListeners s = []) \<and>
   (destructionSubject s \<noteq> None \<longleftrightarrow> length (changeListeners s) = 1)"
  by (cases "destructionSubject s") (simp_all add: wellFormed_def)

lemma exec_stays_unsubscribed:
  assumes "wellFormed s" and "changeListeners s = []" and "ev \<noteq> SetSystemMode"
  shows "changeListeners (state_of (exec stringify ev s)) = []"
proof (cases ev)
  case Apply
  then show ?thesis using assms(2) by (simp add: exec_def apply_theme_frame)
next
  case (SetUserDefinedMode d)
  then show ?thesis using setUserDefinedMode_unsubscribed [OF assms(1)] by (simp add: exec_def)
next
  case SetDarkMode
  then show ?thesis using setUserDefinedMode_unsubscribed [OF assms(1)]
    by (simp add: exec_def setDarkMode_def)
next
  case SetLightMode
  then show ?thesis using setUserDefinedMode_unsubscribed [OF assms(1)]
    by (simp add: exec_def setLightMode_def)
next
  case SetSystemMode
  then show ?thesis using assms(3) by simp
next
  case NgOnDestroy
  then show ?thesis using stopSystemModeSynchronization_listeners [OF assms(1)]
    by (simp add: exec_def ngOnDestroy_def)
next
  case (OsChange b)
  then show ?thesis using assms(2) by (simp add: exec_def osPreferenceChange_frame)
qed

lemma runFrom_stays_unsubscribed:
  "wellFormed (snd ms) \<Longrightarrow> changeListeners (snd ms) = [] \<Longrightarrow> SetSystemMode \<notin> set evs \<Longrightarrow>
   changeListeners (snd (runFrom stringify ms evs)) = []"
proof (induction evs arbitrary: ms)
  case Nil
  then show ?case by simp
next
  case (Cons ev evs)
  let ?ms' = "(nextMode (fst ms) ev (exec stringify ev (snd ms)), state_of (exec stringify ev (snd ms)))"
  have "wellFormed (snd ?ms')" using Cons.prems(1) by (simp add: exec_wellFormed)
  moreover have "changeListeners (snd ?ms') = []"
    using exec_stays_unsubscribed [of "snd ms" ev stringify] Cons.prems by auto
  ultimately show ?case using Cons.IH [of ?ms'] Cons.prems(3) by simp
qed

lemmas sample_defs = serviceAfter_def darkPage_def headlessPage_def corruptPage_def
  emptyValuePage_def nullPage_def lightRecordPage_def emptyObjectPage_def arrayPage_def

lemma run_serviceAfter:
  assumes "\<not> isl (run sampleParse sampleStringify p evs)"
    and "fst (projr (run sampleParse sampleStringify p evs)) = m"
  shows "run sampleParse sampleStringify p evs = Inr (m, serviceAfter p evs)"
  using assms by (cases "run sampleParse sampleStringify p evs") (auto simp add: serviceAfter_def)

section \<open>The claims\<close>

subsection \<open>C1: a persisted value that cannot be deserialized\<close>

text \<open>
  C1, as the code has it. When the value persisted under \<open>theme\<close> is present and cannot be
  deserialized, the constructor does not treat it as absent: unless the value is the empty
  string, \<open>JSON.parse\<close> throws, the constructor propagates the SyntaxError and no service
  is constructed, whatever events were to follow. Only the empty string is treated as
  absent: the constructor then reads the preference of the operating system (\<open>undefined\<close>
  without a window), enters follow mode, and subscribes when a window is attached.
\<close>

theorem corrupt_record_throws:
  assumes "localStorage p SETTINGS_KEY = Some sv" and "parse sv = None"
  shows "(sv \<noteq> [] \<longrightarrow> constructor parse p = Inl SyntaxError \<and> run parse stringify p evs = Inl SyntaxError) \<and>
         (sv = [] \<longrightarrow> (\<exists>s. constructor parse p = Inr s \<and> startMode parse p = Following \<and>
              settings s = JObject [(''darkMode'', case defaultView p of None \<Rightarrow> JUndefined | Some b \<Rightarrow> JBool b)] \<and>
              length (changeListeners s) = (if defaultView p = None then 0 else 1)))"
  using assms
  by (simp add: constructor_def run_def startMode_def getLocalStorageItem_def Let_def isSystemDark_def
        startSystemModeSynchronization_def split: option.split)

text \<open>
  Both cases of the theorem at sample pages: a truncated record, and the empty string.
\<close>

theorem corrupt_record_throws_witness:
  \<open>localStorage corruptPage SETTINGS_KEY = Some ''{"darkMode":tru'' \<and>
   sampleParse ''{"darkMode":tru'' = None \<and>
   constructor sampleParse corruptPage = Inl SyntaxError \<and>
   run sampleParse sampleStringify corruptPage [Apply] = Inl SyntaxError \<and>
   localStorage emptyValuePage SETTINGS_KEY = Some [] \<and>
   sampleParse [] = None \<and>
   (\<exists>s. constructor sampleParse emptyValuePage = Inr s \<and>
        startMode sampleParse emptyValuePage = Following \<and>
        settings s = JObject [(''darkMode'', JBool True)] \<and>
        length (changeListeners s) = 1)\<close>
proof -
  have k: \<open>localStorage corruptPage SETTINGS_KEY = Some ''{"darkMode":tru''\<close>
    by (simp add: corruptPage_def)
  have n: \<open>sampleParse ''{"darkMode":tru'' = None\<close>
    by (simp add: sampleParse_def)
  have k': "localStorage emptyValuePage SETTINGS_KEY = Some []"
    by (simp add: emptyValuePage_def)
  have n': "sampleParse [] = None"
    by (simp add: sampleParse_def)
  have v: "defaultView emptyValuePage = Some True"
    by (simp add: emptyValuePage_def)
  show ?thesis
    using corrupt_record_throws [where p = corruptPage and parse = sampleParse
          and stringify = sampleStringify and evs = "[Apply]", OF k n]
      corrupt_record_throws [where p = emptyValuePage and parse = sampleParse
          and stringify = sampleStringify and evs = "[]", OF k' n'] k n k' n' v
    by simp
qed

text \<open>
  C1 as stated fails: with a truncated record under \<open>theme\<close>, startup ends in the
  SyntaxError of \<open>JSON.parse\<close>.
\<close>

theorem corrupt_record_crashes_startup:
  \<open>localStorage corruptPage SETTINGS_KEY = Some ''{"darkMode":tru'' \<and>
   sampleParse ''{"darkMode":tru'' = None \<and>
   constructor sampleParse corruptPage = Inl SyntaxError \<and>
   run sampleParse sampleStringify corruptPage [] = Inl SyntaxError\<close>
  by (simp add: model_defs sample_defs)

subsection \<open>C2: the persisted key and the mode\<close>

text \<open>
  C2, as the code has it. Provided the value persisted at startup, when there is one, is
  not empty and does not deserialize to a falsy value, in every state reached from startup
  by any sequence of events the key \<open>theme\<close> is present in local storage if and only if
  the application is in override mode, and absent if and only if it is in follow mode.
\<close>

theorem key_iff_override:
  assumes "run parse stringify p evs = Inr (m, s)" and "loadsTruthy parse p"
  shows "(localStorage s SETTINGS_KEY \<noteq> None \<longleftrightarrow> m = Override) \<and>
         (localStorage s SETTINGS_KEY = None \<longleftrightarrow> m = Following)"
proof -
  obtain s0 where c: "constructor parse p = Inr s0"
    and r: "runFrom stringify (startMode parse p, s0) evs = (m, s)"
    using assms(1) by (auto simp add: run_def split: sum.splits)
  have "localStorage s0 SETTINGS_KEY \<noteq> None \<longleftrightarrow> startMode parse p = Override"
    using c assms(2) by (rule constructor_key_mode)
  then have "localStorage (snd (runFrom stringify (startMode parse p, s0) evs)) SETTINGS_KEY \<noteq> None \<longleftrightarrow>
    fst (runFrom stringify (startMode parse p, s0) evs) = Override"
    using runFrom_key_mode [of "(startMode parse p, s0)"] by simp
  then have "localStorage s SETTINGS_KEY \<noteq> None \<longleftrightarrow> m = Override" using r by simp
  then show ?thesis using mode_cases [of m] by blast
qed

text \<open>
  The theorem on a page that starts with a persisted record: after \<open>setSystemMode\<close> the
  key is gone and the mode is follow mode; after a later \<open>setDarkMode\<close> it is back.
\<close>

theorem key_iff_override_witness:
  "run sampleParse sampleStringify lightRecordPage [Apply, SetSystemMode, OsChange False, SetDarkMode] =
     Inr (Override, serviceAfter lightRecordPage [Apply, SetSystemMode, OsChange False, SetDarkMode]) \<and>
   loadsTruthy sampleParse lightRecordPage \<and>
   localStorage (serviceAfter lightRecordPage [Apply, SetSystemMode, OsChange False, SetDarkMode]) SETTINGS_KEY \<noteq> None \<and>
   run sampleParse sampleStringify lightRecordPage [Apply, SetSystemMode] =
     Inr (Following, serviceAfter lightRecordPage [Apply, SetSystemMode]) \<and>
   localStorage (serviceAfter lightRecordPage [Apply, SetSystemMode]) SETTINGS_KEY = None"
proof -
  have r1: "run sampleParse sampleStringify lightRecordPage [Apply, SetSystemMode, OsChange False, SetDarkMode] =
     Inr (Override, serviceAfter lightRecordPage [Apply, SetSystemMode, OsChange False, SetDarkMode])"
    by (rule run_serviceAfter; code_simp)
  have r2: "run sampleParse sampleStringify lightRecordPage [Apply, SetSystemMode] =
     Inr (Following, serviceAfter lightRecordPage [Apply, SetSystemMode])"
    by (rule run_serviceAfter; code_simp)
  have l: "loadsTruthy sampleParse lightRecordPage"
    by (simp add: loadsTruthy_def lightRecordPage_def sampleParse_def)
  show ?thesis
    using key_iff_override [OF r1 l] key_iff_override [OF r2 l] r1 r2 l by simp
qed

text \<open>
  C2 as stated fails: with \<open>null\<close> persisted under \<open>theme\<close>, the constructor takes
  the branch for absent settings, subscribes and follows the operating system, and the key
  stays in local storage.
\<close>

theorem falsy_record_follows_with_key:
  "run sampleParse sampleStringify nullPage [] = Inr (Following, serviceAfter nullPage []) \<and>
   localStorage (serviceAfter nullPage []) SETTINGS_KEY = Some ''null'' \<and>
   changeListeners (serviceAfter nullPage []) = [0]"
proof -
  have "run sampleParse sampleStringify nullPage [] = Inr (Following, serviceAfter nullPage [])"
    by (rule run_serviceAfter; code_simp)
  moreover have "localStorage (serviceAfter nullPage []) SETTINGS_KEY = Some ''null'' \<and>
      changeListeners (serviceAfter nullPage []) = [0]"
    by code_simp
  ultimately show ?thesis by simp
qed

subsection \<open>C3: the subscription and the mode\<close>

text \<open>
  C3, as the code has it. In every reachable state a live subscription to the preference
  of the operating system exists only in follow mode. No subscription is live when no
  window was attached at startup, nor once \<open>ngOnDestroy\<close> has been called and until
  \<open>setSystemMode\<close> is called again, whatever the mode. Conversely, when a window was
  attached at startup and the value loaded at startup was not a truthy primitive (so that
  no \<open>setUserDefinedMode\<close> throws), exactly one subscription is live if and only if the
  application is in follow mode and \<open>ngOnDestroy\<close> has not been called since the last
  \<open>setSystemMode\<close>, or since startup.
\<close>

theorem subscription_and_follow_mode:
  assumes "run parse stringify p evs = Inr (m, s)"
  shows "(changeListeners s \<noteq> [] \<longrightarrow> m = Following) \<and>
         (defaultView p = None \<longrightarrow> changeListeners s = []) \<and>
         (tornDown evs \<longrightarrow> changeListeners s = []) \<and>
         (defaultView p \<noteq> None \<and> loadsNoPrimitive parse p \<longrightarrow>
            (length (changeListeners s) = 1 \<longleftrightarrow> m = Following \<and> \<not> tornDown evs))"
proof -
  obtain s0 where c: "constructor parse p = Inr s0"
    and r: "runFrom stringify (startMode parse p, s0) evs = (m, s)"
    using assms by (auto simp add: run_def split: sum.splits)
  have wf0: "wellFormed s0" using c by (rule constructor_wellFormed)
  have wf: "wellFormed s" using run_wellFormed [OF assms] by simp
  have only: "changeListeners s \<noteq> [] \<longrightarrow> m = Following"
    using runFrom_listeners_mode [of "(startMode parse p, s0)" stringify evs]
      wf0 constructor_listeners_mode [OF c] r by simp
  have headless: "changeListeners s = []" if "defaultView p = None"
  proof -
    have "defaultView s0 = None" using constructor_defaultView [OF c] that by simp
    then have "defaultView s = None"
      using runFrom_no_window [of "(startMode parse p, s0)" stringify evs] r by simp
    then show ?thesis using wf by (auto simp add: wellFormed_def)
  qed
  have torn: "changeListeners s = []" if "tornDown evs"
  proof -
    have "tornDownFrom False evs \<longrightarrow>
        destructionSubject (snd (runFrom stringify (startMode parse p, s0) evs)) = None"
      by (rule runFrom_torn) simp
    then have "destructionSubject s = None" using that r by (simp add: tornDown_def)
    then show ?thesis using wellFormed_listeners [OF wf] by blast
  qed
  have conv: "length (changeListeners s) = 1 \<longleftrightarrow> m = Following \<and> \<not> tornDown evs"
    if h: "defaultView p \<noteq> None" "loadsNoPrimitive parse p"
  proof -
    have "armed (startMode parse p) s0 False" using c h by (rule constructor_armed)
    then have "armed (fst (runFrom stringify (startMode parse p, s0) evs))
        (snd (runFrom stringify (startMode parse p, s0) evs)) (tornDownFrom False evs)"
      using runFrom_armed [of "(startMode parse p, s0)" False stringify evs] by simp
    then have "destructionSubject s \<noteq> None \<longleftrightarrow> m = Following \<and> \<not> tornDown evs"
      using r by (simp add: armed_def tornDown_def)
    then show ?thesis using wellFormed_listeners [OF wf] by blast
  qed
  show ?thesis using only headless torn conv by blast
qed

text \<open>
  The theorem at three runs: follow mode entered again after \<open>ngOnDestroy\<close> (one
  subscription), follow mode torn down by \<open>ngOnDestroy\<close> (none), and follow mode without
  a window (none).
\<close>

theorem subscription_and_follow_mode_witness:
  "run sampleParse sampleStringify darkPage [NgOnDestroy, SetSystemMode, OsChange False] =
     Inr (Following, serviceAfter darkPage [NgOnDestroy, SetSystemMode, OsChange False]) \<and>
   defaultView darkPage \<noteq> None \<and>
   loadsNoPrimitive sampleParse darkPage \<and>
   \<not> tornDown [NgOnDestroy, SetSystemMode, OsChange False] \<and>
   length (changeListeners (serviceAfter darkPage [NgOnDestroy, SetSystemMode, OsChange False])) = 1 \<and>
   run sampleParse sampleStringify darkPage [SetSystemMode, NgOnDestroy, Apply] =
     Inr (Following, serviceAfter darkPage [SetSystemMode, NgOnDestroy, Apply]) \<and>
   tornDown [SetSystemMode, NgOnDestroy, Apply] \<and>
   changeListeners (serviceAfter darkPage [SetSystemMode, NgOnDestroy, Apply]) = [] \<and>
   run sampleParse sampleStringify headlessPage [SetSystemMode] =
     Inr (Following, serviceAfter headlessPage [SetSystemMode]) \<and>
   defaultView headlessPage = None \<and>
   changeListeners (serviceAfter headlessPage [SetSystemMode]) = []"
proof -
  have r1: "run sampleParse sampleStringify darkPage [NgOnDestroy, SetSystemMode, OsChange False] =
     Inr (Following, serviceAfter darkPage [NgOnDestroy, SetSystemMode, OsChange False])"
    by (rule run_serviceAfter; code_simp)
  have r2: "run sampleParse sampleStringify darkPage [SetSystemMode, NgOnDestroy, Apply] =
     Inr (Following, serviceAfter darkPage [SetSystemMode, NgOnDestroy, Apply])"
    by (rule run_serviceAfter; code_simp)
  have r3: "run sampleParse sampleStringify headlessPage [SetSystemMode] =
     Inr (Following, serviceAfter headlessPage [SetSystemMode])"
    by (rule run_serviceAfter; code_simp)
  have v: "defaultView darkPage \<noteq> None" and h: "defaultView headlessPage = None"
    by (simp_all add: darkPage_def headlessPage_def)
  have l: "loadsNoPrimitive sampleParse darkPage"
    by (simp add: loadsNoPrimitive_def getLocalStorageItem_def darkPage_def)
  have t1: "\<not> tornDown [NgOnDestroy, SetSystemMode, OsChange False]"
    and t2: "tornDown [SetSystemMode, NgOnDestroy, Apply]"
    by (simp_all add: tornDown_def)
  show ?thesis
    using subscription_and_follow_mode [OF r1] subscription_and_follow_mode [OF r2]
      subscription_and_follow_mode [OF r3] r1 r2 r3 v h l t1 t2
    by blast
qed

text \<open>
  C3 as stated fails in the two situations it names, here on pages without a persisted
  record: right after a startup without a window, and after \<open>ngOnDestroy\<close> on a page
  with a window, the application is in follow mode and no subscription is live.
\<close>

theorem following_without_subscription:
  "run sampleParse sampleStringify headlessPage [] = Inr (Following, serviceAfter headlessPage []) \<and>
   changeListeners (serviceAfter headlessPage []) = [] \<and>
   destructionSubject (serviceAfter headlessPage []) = None \<and>
   run sampleParse sampleStringify darkPage [NgOnDestroy] = Inr (Following, serviceAfter darkPage [NgOnDestroy]) \<and>
   changeListeners (serviceAfter darkPage [NgOnDestroy]) = [] \<and>
   destructionSubject (serviceAfter darkPage [NgOnDestroy]) = None"
proof -
  have "run sampleParse sampleStringify headlessPage [] = Inr (Following, serviceAfter headlessPage [])"
    by (rule run_serviceAfter; code_simp)
  moreover have "run sampleParse sampleStringify darkPage [NgOnDestroy] =
      Inr (Following, serviceAfter darkPage [NgOnDestroy])"
    by (rule run_serviceAfter; code_simp)
  moreover have "changeListeners (serviceAfter headlessPage []) = [] \<and>
      destructionSubject (serviceAfter headlessPage []) = None"
    by code_simp
  moreover have "changeListeners (serviceAfter darkPage [NgOnDestroy]) = [] \<and>
      destructionSubject (serviceAfter darkPage [NgOnDestroy]) = None"
    by code_simp
  ultimately show ?thesis by simp
qed

subsection \<open>C4: the round trip of a user-defined mode\<close>

text \<open>
  C4, as the code has it. For every boolean \<open>d\<close>, when the settings in memory are a plain
  object and \<open>JSON.parse\<close> gives back for its serialization a truthy value with the same
  \<open>darkMode\<close>, \<open>setUserDefinedMode d\<close> returns, \<open>settings.darkMode\<close> is \<open>d\<close>, and a
  fresh startup on the same local storage, whatever its window and body classes, keeps the
  loaded settings (override mode, no subscription), reads \<open>darkMode\<close> as \<open>d\<close> and shows
  theme \<open>d\<close> on \<open>apply\<close>.
\<close>

theorem user_mode_round_trip:
  assumes "settings s = JObject ps"
    and "keepsDarkMode parse stringify (JObject (AList.update ''darkMode'' (JBool d) ps))"
  shows "\<exists>s'. setUserDefinedMode stringify d s = Returned s' \<and>
           read_darkMode (settings s') = Inr (JBool d) \<and>
           (\<forall>view classes. \<exists>s'' t. constructor parse (freshPage s' view classes) = Inr s'' \<and>
              startMode parse (freshPage s' view classes) = Override \<and>
              read_darkMode (settings s'') = Inr (JBool d) \<and>
              destructionSubject s'' = None \<and>
              apply_theme s'' = Returned t \<and> appliedTheme t = Some d)"
proof -
  let ?v = "JObject (AList.update ''darkMode'' (JBool d) ps)"
  let ?s2 = "stopSystemModeSynchronization (setMode (JBool d) s)"
  let ?s' = "?s2\<lparr>settings := ?v, localStorage := (localStorage ?s2)(SETTINGS_KEY \<mapsto> stringify ?v)\<rparr>"
  have ret: "setUserDefinedMode stringify d s = Returned ?s'"
    using assms(1)
    by (simp add: setUserDefinedMode_def Let_def setLocalStorageItem_def
          stopSystemModeSynchronization_frame setMode_frame)
  have rd: "read_darkMode ?v = Inr (JBool d)" by (simp add: update_conv')
  obtain v' where p: "parse (stringify ?v) = Some v'" and tr: "truthy v'"
    and same: "read_darkMode v' = Inr (JBool d)" and ne: "stringify ?v \<noteq> []"
    using assms(2) rd by (auto simp add: keepsDarkMode_def split: option.splits)
  have fresh: "\<exists>s'' t. constructor parse (freshPage ?s' view classes) = Inr s'' \<and>
              startMode parse (freshPage ?s' view classes) = Override \<and>
              read_darkMode (settings s'') = Inr (JBool d) \<and>
              destructionSubject s'' = None \<and>
              apply_theme s'' = Returned t \<and> appliedTheme t = Some d" for view classes
  proof -
    let ?s'' = "\<lparr>localStorage = localStorage ?s', defaultView = view,
                    bodyClassList = classes, settings = v',
                    destructionSubject = None, kendouiStylesheetHtmlElement = None,
                    changeListeners = [], subjectsCreated = 0, rendererCalls = []\<rparr>"
    have c: "constructor parse (freshPage ?s' view classes) = Inr ?s''"
      using p tr ne by (simp add: constructor_def freshPage_def getLocalStorageItem_def Let_def)
    have m: "startMode parse (freshPage ?s' view classes) = Override"
      using p tr ne by (simp add: startMode_def freshPage_def getLocalStorageItem_def)
    have a: "apply_theme ?s'' = Returned (setMode (JBool d) ?s'')"
      using same by (simp add: apply_theme_def)
    have "linkAttached ?s''" by (simp add: linkAttached_def)
    then have "appliedTheme (setMode (JBool d) ?s'') = Some d" by (simp add: setMode_applied)
    then show ?thesis using c m a same by simp
  qed
  show ?thesis using ret rd fresh by simp
qed

text \<open>
  The theorem for the settings the constructor creates on a page without a persisted
  record, and \<open>d = False\<close>.
\<close>

theorem user_mode_round_trip_witness:
  "settings (serviceAfter darkPage []) = JObject [(''darkMode'', JBool True)] \<and>
   keepsDarkMode sampleParse sampleStringify
     (JObject (AList.update ''darkMode'' (JBool False) [(''darkMode'', JBool True)])) \<and>
   (\<exists>s'. setUserDefinedMode sampleStringify False (serviceAfter darkPage []) = Returned s' \<and>
           read_darkMode (settings s') = Inr (JBool False) \<and>
           (\<forall>view classes. \<exists>s'' t. constructor sampleParse (freshPage s' view classes) = Inr s'' \<and>
              startMode sampleParse (freshPage s' view classes) = Override \<and>
              read_darkMode (settings s'') = Inr (JBool False) \<and>
              destructionSubject s'' = None \<and>
              apply_theme s'' = Returned t \<and> appliedTheme t = Some False))"
proof -
  have s: "settings (serviceAfter darkPage []) = JObject [(''darkMode'', JBool True)]"
    by code_simp
  have k: "keepsDarkMode sampleParse sampleStringify
     (JObject (AList.update ''darkMode'' (JBool False) [(''darkMode'', JBool True)]))"
    by (simp add: keepsDarkMode_def sampleParse_def sampleStringify_def)
  show ?thesis
    using user_mode_round_trip [OF s k] s k by blast
qed

text \<open>
  C4 as stated fails when the settings are not a plain object: with \<open>[]\<close> persisted under
  \<open>theme\<close> the settings are an array, \<open>setUserDefinedMode True\<close> sets the property on
  it, \<open>JSON.stringify\<close> writes \<open>[]\<close> again, and the fresh startup reads \<open>darkMode\<close> as
  \<open>undefined\<close> and shows the light theme.
\<close>

theorem array_settings_lose_darkMode:
  "run sampleParse sampleStringify arrayPage [SetUserDefinedMode True] =
     Inr (Override, serviceAfter arrayPage [SetUserDefinedMode True]) \<and>
   read_darkMode (settings (serviceAfter arrayPage [SetUserDefinedMode True])) = Inr (JBool True) \<and>
   localStorage (serviceAfter arrayPage [SetUserDefinedMode True]) SETTINGS_KEY = Some ''[]'' \<and>
   \<not> isl (constructor sampleParse
            (freshPage (serviceAfter arrayPage [SetUserDefinedMode True]) (Some True) {})) \<and>
   read_darkMode (settings (projr (constructor sampleParse
            (freshPage (serviceAfter arrayPage [SetUserDefinedMode True]) (Some True) {}))))
     = Inr JUndefined \<and>
   appliedTheme (state_of (apply_theme (projr (constructor sampleParse
            (freshPage (serviceAfter arrayPage [SetUserDefinedMode True]) (Some True) {})))))
     = Some False"
proof -
  have "run sampleParse sampleStringify arrayPage [SetUserDefinedMode True] =
     Inr (Override, serviceAfter arrayPage [SetUserDefinedMode True])"
    by (rule run_serviceAfter; code_simp)
  moreover have "read_darkMode (settings (serviceAfter arrayPage [SetUserDefinedMode True])) = Inr (JBool True) \<and>
     localStorage (serviceAfter arrayPage [SetUserDefinedMode True]) SETTINGS_KEY = Some ''[]''"
    by code_simp
  moreover have "\<not> isl (constructor sampleParse
            (freshPage (serviceAfter arrayPage [SetUserDefinedMode True]) (Some True) {}))"
    by code_simp
  moreover have "read_darkMode (settings (projr (constructor sampleParse
            (freshPage (serviceAfter arrayPage [SetUserDefinedMode True]) (Some True) {}))))
     = Inr JUndefined"
    by code_simp
  moreover have "appliedTheme (state_of (apply_theme (projr (constructor sampleParse
            (freshPage (serviceAfter arrayPage [SetUserDefinedMode True]) (Some True) {})))))
     = Some False"
    by code_simp
  ultimately show ?thesis by simp
qed

subsection \<open>C5: setSystemMode\<close>

text \<open>
  C5. In every reachable state, after \<open>setSystemMode\<close> the key \<open>theme\<close> is absent from
  local storage and the theme on the page is the preference of the operating system as
  \<open>isSystemDark\<close> read it at that moment: its truth value, which is the preference itself
  when a window is attached.
\<close>

theorem setSystemMode_clears_and_follows:
  assumes "run parse stringify p evs = Inr (m, s)"
  shows "localStorage (setSystemMode s) SETTINGS_KEY = None \<and>
         appliedTheme (setSystemMode s) = Some (truthy (isSystemDark s)) \<and>
         (\<forall>b. defaultView s = Some b \<longrightarrow> appliedTheme (setSystemMode s) = Some b)"
proof -
  have wf: "wellFormed s" using run_wellFormed [OF assms] by simp
  then have link: "linkAttached s" by (simp add: wellFormed_def)
  have key: "localStorage (setSystemMode s) SETTINGS_KEY = None"
    by (simp add: setSystemMode_frame)
  have "appliedTheme (setSystemMode s) = appliedTheme (setMode (isSystemDark s) s)"
    by (simp add: setSystemMode_def Let_def removeLocalStorageItem_def appliedTheme_def
          stylesheet_def startSystemModeSynchronization_frame)
  then have theme: "appliedTheme (setSystemMode s) = Some (truthy (isSystemDark s))"
    using link by (simp add: setMode_applied)
  have "\<forall>b. defaultView s = Some b \<longrightarrow> truthy (isSystemDark s) = b"
    by (simp add: isSystemDark_def)
  with key theme show ?thesis by simp
qed

text \<open>
  The theorem in override mode with a dark theme on the page, the operating system having
  turned to light.
\<close>

theorem setSystemMode_clears_and_follows_witness:
  \<open>run sampleParse sampleStringify darkPage [SetDarkMode, OsChange False] =
     Inr (Override, serviceAfter darkPage [SetDarkMode, OsChange False]) \<and>
   defaultView (serviceAfter darkPage [SetDarkMode, OsChange False]) = Some False \<and>
   localStorage (serviceAfter darkPage [SetDarkMode, OsChange False]) SETTINGS_KEY =
     Some ''{"darkMode":true}'' \<and>
   appliedTheme (serviceAfter darkPage [SetDarkMode, OsChange False]) = Some True \<and>
   localStorage (setSystemMode (serviceAfter darkPage [SetDarkMode, OsChange False])) SETTINGS_KEY = None \<and>
   appliedTheme (setSystemMode (serviceAfter darkPage [SetDarkMode, OsChange False])) = Some False\<close>
proof -
  have r: "run sampleParse sampleStringify darkPage [SetDarkMode, OsChange False] =
     Inr (Override, serviceAfter darkPage [SetDarkMode, OsChange False])"
    by (rule run_serviceAfter; code_simp)
  have v: "defaultView (serviceAfter darkPage [SetDarkMode, OsChange False]) = Some False"
    by code_simp
  have k: \<open>localStorage (serviceAfter darkPage [SetDarkMode, OsChange False]) SETTINGS_KEY =
     Some ''{"darkMode":true}''\<close>
    by code_simp
  have a: "appliedTheme (serviceAfter darkPage [SetDarkMode, OsChange False]) = Some True"
    by code_simp
  show ?thesis
    using setSystemMode_clears_and_follows [OF r] r v k a by (simp add: isSystemDark_def)
qed

subsection \<open>C6: a persisted light record wins over a dark operating system\<close>

text \<open>
  C6. With the record \<open>{"darkMode":false}\<close> persisted under \<open>theme\<close> (which \<open>JSON.parse\<close>
  reads as an object whose \<open>darkMode\<close> is \<open>false\<close>) and an operating system that prefers
  dark, the constructor followed by \<open>apply\<close> puts the light stylesheet and the light
  marker on the page, and no subscription is started.
\<close>

theorem persisted_light_wins_over_dark_os:
  assumes \<open>localStorage p SETTINGS_KEY = Some ''{"darkMode":false}''\<close>
    and \<open>parse ''{"darkMode":false}'' = Some (JObject [(''darkMode'', JBool False)])\<close>
    and "defaultView p = Some True"
  shows "\<exists>s t. constructor parse p = Inr s \<and> apply_theme s = Returned t \<and>
           stylesheet t = Some ''kendoui-light.css'' \<and>
           appliedTheme t = Some False \<and>
           destructionSubject s = None \<and> changeListeners s = [] \<and>
           destructionSubject t = None \<and> changeListeners t = []"
  using assms
  by (simp add: constructor_def getLocalStorageItem_def Let_def apply_theme_def
        setMode_def setKendoUiControlsMode_def get_kendouiStylesheetHtmlElement_def
        stylesheet_def appliedTheme_def)

text \<open>
  The theorem on the sample page with that record.
\<close>

theorem persisted_light_wins_over_dark_os_witness:
  \<open>localStorage lightRecordPage SETTINGS_KEY = Some ''{"darkMode":false}'' \<and>
   sampleParse ''{"darkMode":false}'' = Some (JObject [(''darkMode'', JBool False)]) \<and>
   defaultView lightRecordPage = Some True \<and>
   (\<exists>s t. constructor sampleParse lightRecordPage = Inr s \<and> apply_theme s = Returned t \<and>
           stylesheet t = Some ''kendoui-light.css'' \<and>
           appliedTheme t = Some False \<and>
           destructionSubject s = None \<and> changeListeners s = [] \<and>
           destructionSubject t = None \<and> changeListeners t = [])\<close>
proof -
  have k: \<open>localStorage lightRecordPage SETTINGS_KEY = Some ''{"darkMode":false}''\<close>
    by (simp add: lightRecordPage_def)
  have j: \<open>sampleParse ''{"darkMode":false}'' = Some (JObject [(''darkMode'', JBool False)])\<close>
    by (simp add: sampleParse_def)
  have v: "defaultView lightRecordPage = Some True"
    by (simp add: lightRecordPage_def)
  show ?thesis
    using persisted_light_wins_over_dark_os [where p = lightRecordPage and parse = sampleParse, OF k j v]
      k j v
    by simp
qed

subsection \<open>C7: at most one subscription\<close>

text \<open>
  C7, as the code has it. In every reachable state at most one subscription is live, and a
  second \<open>setSystemMode\<close> in a row leaves the subscriptions of the first: exactly one
  when a window is attached, none without a window.
\<close>

theorem at_most_one_subscription:
  assumes "run parse stringify p evs = Inr (m, s)"
  shows "length (changeListeners s) \<le> 1 \<and>
         changeListeners (setSystemMode (setSystemMode s)) = changeListeners (setSystemMode s) \<and>
         length (changeListeners (setSystemMode (setSystemMode s))) =
           (if defaultView s = None then 0 else 1)"
proof -
  have wf: "wellFormed s" using run_wellFormed [OF assms] by simp
  have one: "length (changeListeners s) \<le> 1"
    using wf by (simp add: wellFormed_def split: option.split)
  have twice: "changeListeners (setSystemMode (setSystemMode s)) = changeListeners (setSystemMode s)"
    by (simp add: setSystemMode_listeners setSystemMode_subject setSystemMode_frame)
  have "length (changeListeners (setSystemMode s)) = (if defaultView s = None then 0 else 1)"
    using wf by (auto simp add: setSystemMode_listeners wellFormed_def split: option.splits)
  with one twice show ?thesis by simp
qed

text \<open>
  The theorem in override mode with a window: one subscription after one call, the same
  one after two.
\<close>

theorem at_most_one_subscription_witness:
  "run sampleParse sampleStringify lightRecordPage [Apply] =
     Inr (Override, serviceAfter lightRecordPage [Apply]) \<and>
   changeListeners (serviceAfter lightRecordPage [Apply]) = [] \<and>
   defaultView (serviceAfter lightRecordPage [Apply]) = Some True \<and>
   changeListeners (setSystemMode (serviceAfter lightRecordPage [Apply])) = [0] \<and>
   changeListeners (setSystemMode (setSystemMode (serviceAfter lightRecordPage [Apply]))) = [0] \<and>
   length (changeListeners (setSystemMode (setSystemMode (serviceAfter lightRecordPage [Apply])))) = 1"
proof -
  have r: "run sampleParse sampleStringify lightRecordPage [Apply] =
     Inr (Override, serviceAfter lightRecordPage [Apply])"
    by (rule run_serviceAfter; code_simp)
  have l: "changeListeners (serviceAfter lightRecordPage [Apply]) = []"
    by code_simp
  have v: "defaultView (serviceAfter lightRecordPage [Apply]) = Some True"
    by code_simp
  have o: "changeListeners (setSystemMode (serviceAfter lightRecordPage [Apply])) = [0]"
    by code_simp
  show ?thesis
    using at_most_one_subscription [OF r] r l v o by simp
qed

text \<open>
  C7 as stated fails without a window: two calls of \<open>setSystemMode\<close> in a row leave no
  subscription, not exactly one.
\<close>

theorem setSystemMode_twice_headless:
  "run sampleParse sampleStringify headlessPage [SetSystemMode, SetSystemMode] =
     Inr (Following, serviceAfter headlessPage [SetSystemMode, SetSystemMode]) \<and>
   changeListeners (serviceAfter headlessPage [SetSystemMode, SetSystemMode]) = [] \<and>
   length (changeListeners (serviceAfter headlessPage [SetSystemMode, SetSystemMode])) \<noteq> 1"
proof -
  have "run sampleParse sampleStringify headlessPage [SetSystemMode, SetSystemMode] =
     Inr (Following, serviceAfter headlessPage [SetSystemMode, SetSystemMode])"
    by (rule run_serviceAfter; code_simp)
  moreover have "changeListeners (serviceAfter headlessPage [SetSystemMode, SetSystemMode]) = []"
    by code_simp
  ultimately show ?thesis by simp
qed

subsection \<open>C8: a user-defined mode silences the operating system\<close>

text \<open>
  C8. In every reachable state and for every boolean \<open>d\<close>, \<open>setUserDefinedMode d\<close>
  leaves no subscription and no subject (also when it throws), and after any later events
  other than \<open>setSystemMode\<close>, a change of the preference of the operating system makes no
  call on the renderer and leaves the theme on the page as it was.
\<close>

theorem user_mode_silences_os_changes:
  assumes "run parse stringify p evs = Inr (m, s)" and "SetSystemMode \<notin> set later"
  shows "changeListeners (state_of (setUserDefinedMode stringify d s)) = [] \<and>
         destructionSubject (state_of (setUserDefinedMode stringify d s)) = None \<and>
         (\<forall>b. rendererCalls (osPreferenceChange b
                 (snd (runFrom stringify (m', state_of (setUserDefinedMode stringify d s)) later))) =
               rendererCalls (snd (runFrom stringify (m', state_of (setUserDefinedMode stringify d s)) later)) \<and>
              appliedTheme (osPreferenceChange b
                 (snd (runFrom stringify (m', state_of (setUserDefinedMode stringify d s)) later))) =
               appliedTheme (snd (runFrom stringify (m', state_of (setUserDefinedMode stringify d s)) later)))"
proof -
  let ?s1 = "state_of (setUserDefinedMode stringify d s)"
  have wf: "wellFormed s" using run_wellFormed [OF assms(1)] by simp
  have wf1: "wellFormed ?s1" using wf by (rule setUserDefinedMode_wellFormed)
  have off: "changeListeners ?s1 = [] \<and> destructionSubject ?s1 = None"
    using wf by (rule setUserDefinedMode_unsubscribed)
  have "changeListeners (snd (runFrom stringify (m', ?s1) later)) = []"
    using runFrom_stays_unsubscribed [of "(m', ?s1)" later stringify] wf1 off assms(2) by simp
  then show ?thesis using off
    by (simp add: osPreferenceChange_unsubscribed appliedTheme_def stylesheet_def)
qed

text \<open>
  The theorem in follow mode with a live subscription.
\<close>

theorem user_mode_silences_os_changes_witness:
  "run sampleParse sampleStringify darkPage [Apply] = Inr (Following, serviceAfter darkPage [Apply]) \<and>
   changeListeners (serviceAfter darkPage [Apply]) = [0] \<and>
   SetSystemMode \<notin> set [Apply, NgOnDestroy, SetLightMode] \<and>
   changeListeners (state_of (setUserDefinedMode sampleStringify True (serviceAfter darkPage [Apply]))) = [] \<and>
   destructionSubject (state_of (setUserDefinedMode sampleStringify True (serviceAfter darkPage [Apply]))) = None \<and>
   rendererCalls (osPreferenceChange False
      (snd (runFrom sampleStringify
             (Override, state_of (setUserDefinedMode sampleStringify True (serviceAfter darkPage [Apply])))
             [Apply, NgOnDestroy, SetLightMode]))) =
   rendererCalls
      (snd (runFrom sampleStringify
             (Override, state_of (setUserDefinedMode sampleStringify True (serviceAfter darkPage [Apply])))
             [Apply, NgOnDestroy, SetLightMode]))"
proof -
  have r: "run sampleParse sampleStringify darkPage [Apply] = Inr (Following, serviceAfter darkPage [Apply])"
    by (rule run_serviceAfter; code_simp)
  have l: "changeListeners (serviceAfter darkPage [Apply]) = [0]"
    by code_simp
  have n: "SetSystemMode \<notin> set [Apply, NgOnDestroy, SetLightMode]"
    by simp
  show ?thesis
    using user_mode_silences_os_changes [OF r n, of True Override] r l n by simp
qed

subsection \<open>C9: isSystemDark without a window\<close>

text \<open>
  C9. Without a window \<open>isSystemDark\<close> does not throw and \<open>startSystemModeSynchronization\<close>
  changes nothing, as claimed; but the value returned is \<open>undefined\<close>, a falsy value that
  is not the boolean \<open>false\<close> the method declares.
\<close>

theorem isSystemDark_without_window:
  "isSystemDark (s\<lparr>defaultView := None\<rparr>) = JUndefined \<and>
   isSystemDark (s\<lparr>defaultView := None\<rparr>) \<noteq> JBool False \<and>
   \<not> truthy (isSystemDark (s\<lparr>defaultView := None\<rparr>)) \<and>
   startSystemModeSynchronization (s\<lparr>defaultView := None\<rparr>) = s\<lparr>defaultView := None\<rparr>"
  by (simp add: isSystemDark_def startSystemModeSynchronization_def)

subsection \<open>C10: a persisted object without darkMode\<close>

text \<open>
  C10. When the value persisted under \<open>theme\<close> deserializes to an object without a
  \<open>darkMode\<close> property, the constructor keeps it as the settings (override mode, no
  subscription), and \<open>apply\<close> reads \<open>undefined\<close>, takes the falsy branch of \<open>setMode\<close>
  and puts the light marker and the light stylesheet on the page.
\<close>

theorem record_without_darkMode_is_light:
  assumes "localStorage p SETTINGS_KEY = Some sv" and "sv \<noteq> []"
    and "parse sv = Some (JObject ps)" and "map_of ps ''darkMode'' = None"
  shows "\<exists>s t. constructor parse p = Inr s \<and> settings s = JObject ps \<and>
           startMode parse p = Override \<and>
           destructionSubject s = None \<and> changeListeners s = [] \<and>
           read_darkMode (settings s) = Inr JUndefined \<and>
           apply_theme s = Returned t \<and>
           stylesheet t = Some ''kendoui-light.css'' \<and>
           LIGHT_MODE_CSS_CLASS_NAME \<in> bodyClassList t \<and>
           appliedTheme t = Some False \<and>
           rendererCalls t = [AddClass LIGHT_MODE_CSS_CLASS_NAME, CreateElement ''link'',
              SetAttribute ''rel'' ''stylesheet'', AppendChild, SetProperty ''href'' ''kendoui-light.css'']"
  using assms
  by (simp add: constructor_def startMode_def getLocalStorageItem_def Let_def apply_theme_def
        setMode_def setKendoUiControlsMode_def get_kendouiStylesheetHtmlElement_def
        stylesheet_def appliedTheme_def)

text \<open>
  The theorem for the persisted string \<open>{}\<close>.
\<close>

theorem record_without_darkMode_is_light_witness:
  "localStorage emptyObjectPage SETTINGS_KEY = Some ''{}'' \<and>
   sampleParse ''{}'' = Some (JObject []) \<and>
   map_of ([] :: (string \<times> jsvalue) list) ''darkMode'' = None \<and>
   (\<exists>s t. constructor sampleParse emptyObjectPage = Inr s \<and> settings s = JObject [] \<and>
           startMode sampleParse emptyObjectPage = Override \<and>
           destructionSubject s = None \<and> changeListeners s = [] \<and>
           read_darkMode (settings s) = Inr JUndefined \<and>
           apply_theme s = Returned t \<and>
           stylesheet t = Some ''kendoui-light.css'' \<and>
           LIGHT_MODE_CSS_CLASS_NAME \<in> bodyClassList t \<and>
           appliedTheme t = Some False \<and>
           rendererCalls t = [AddClass LIGHT_MODE_CSS_CLASS_NAME, CreateElement ''link'',
              SetAttribute ''rel'' ''stylesheet'', AppendChild, SetProperty ''href'' ''kendoui-light.css''])"
proof -
  have k: "localStorage emptyObjectPage SETTINGS_KEY = Some ''{}''"
    by (simp add: emptyObjectPage_def)
  have e: "''{}'' \<noteq> []"
    by simp
  have j: "sampleParse ''{}'' = Some (JObject [])"
    by (simp add: sampleParse_def)
  have m: "map_of ([] :: (string \<times> jsvalue) list) ''darkMode'' = None"
    by simp
  show ?thesis
    using record_without_darkMode_is_light [where p = emptyObjectPage and parse = sampleParse
        and sv = "''{}''" and ps = "[]", OF k e j m] k j m
    by simp
qed

end
